theory Spec2Isabelle
  imports Main "HOL-Library.Multiset"
begin

section \<open>The fragment database merge of mmpdblib/cli/fragdb\_merge.py\<close>

text \<open>
  The merge command opens every input database, checks its options against the first
  input's, attaches it to the output connection as \<open>old\<close>, looks for record titles
  that the output already holds, and runs three \<open>INSERT ... SELECT\<close> statements.
  The embedding keeps the tables as lists of rows in rowid order, the connection as a
  record (its view of the main database, the attached database, the transaction flag),
  the file system as a map from path to content, and every raise as a value of
  \<open>error\<close>.
\<close>

subsection \<open>Rows, tables, databases\<close>

text \<open>
  Option values as \<open>options.to_dict()\<close> yields them (numbers, strings, None); HOL's
  equality on \<open>pyval\<close> is Python's \<open>==\<close> on these.
\<close>

datatype pyval = PyNone | PyInt int | PyStr string

type_synonym options = "(string \<times> pyval) list"

record error_row =
  er_id :: nat
  er_title :: string
  er_input_smiles :: string
  er_errmsg :: string

record record_row =
  rr_id :: nat
  rr_title :: string
  rr_input_smiles :: string
  rr_num_normalized_heavies :: int
  rr_normalized_smiles :: string

record fragmentation_row =
  fr_id :: nat
  fr_record_id :: nat
  fr_num_cuts :: int
  fr_enumeration_label :: string
  fr_variable_num_heavies :: int
  fr_variable_symmetry_class :: string
  fr_variable_smiles :: string
  fr_attachment_order :: string
  fr_constant_num_heavies :: int
  fr_constant_symmetry_class :: string
  fr_constant_smiles :: string
  fr_constant_with_H_smiles :: string

text \<open>
  Modelled from the spec: the table definitions (the schema and index DDL are not part
  of the sources). A database holds its options and the three tables \<open>error_record\<close>,
  \<open>record\<close> and \<open>fragmentation\<close>; \<open>id\<close> is the integer primary key the database
  assigns. The merge statements name no constraint and handle no constraint failure, so
  an insert is modelled as always succeeding.
\<close>

record fragdb =
  db_options :: options
  error_record :: "error_row list"
  record_tbl :: "record_row list"
  fragmentation :: "fragmentation_row list"

definition empty_fragdb :: "options \<Rightarrow> fragdb" where
  "empty_fragdb opts =
     \<lparr>db_options = opts, error_record = [], record_tbl = [], fragmentation = []\<rparr>"

text \<open>
  A row inserted without an id gets the largest id of the table plus one (1 in an empty
  table). \<open>insert_rows\<close> is \<open>INSERT ... SELECT\<close>: the selected rows are appended one
  after the other.
\<close>

definition next_rowid :: "nat list \<Rightarrow> nat" where
  "next_rowid ids = Suc (fold max ids 0)"

fun insert_rows :: "('r \<Rightarrow> nat) \<Rightarrow> (nat \<Rightarrow> 'r \<Rightarrow> 'r) \<Rightarrow> 'r list \<Rightarrow> 'r list \<Rightarrow> 'r list" where
  "insert_rows rid set_id tbl [] = tbl"
| "insert_rows rid set_id tbl (r # rs) =
     insert_rows rid set_id (tbl @ [set_id (next_rowid (map rid tbl)) r]) rs"

subsection \<open>The three statements of \<open>fragdb_merge_sql\<close>\<close>

definition copy_error_records :: "fragdb \<Rightarrow> fragdb \<Rightarrow> fragdb" where
  "copy_error_records old db =
     db\<lparr>error_record :=
          insert_rows er_id (\<lambda>i e. e\<lparr>er_id := i\<rparr>) (error_record db) (error_record old)\<rparr>"

definition copy_records :: "fragdb \<Rightarrow> fragdb \<Rightarrow> fragdb" where
  "copy_records old db =
     db\<lparr>record_tbl :=
          insert_rows rr_id (\<lambda>i r. r\<lparr>rr_id := i\<rparr>) (record_tbl db) (record_tbl old)\<rparr>"

text \<open>
  The join of step 3, in the order of its FROM clause: \<open>new_record\<close>, \<open>old_record\<close>,
  \<open>old_fragmentation\<close>. The selected row is the old fragmentation with
  \<open>new_record.id\<close> as its \<open>record_id\<close>; the ten other columns are taken over.
\<close>

definition selected_fragmentations :: "fragdb \<Rightarrow> fragdb \<Rightarrow> fragmentation_row list" where
  "selected_fragmentations old db =
     concat (map (\<lambda>new_record.
       concat (map (\<lambda>old_record.
         concat (map (\<lambda>old_fragmentation.
           if rr_title old_record = rr_title new_record \<and>
              fr_record_id old_fragmentation = rr_id old_record
           then [old_fragmentation\<lparr>fr_record_id := rr_id new_record\<rparr>] else [])
         (fragmentation old)))
       (record_tbl old)))
     (record_tbl db))"

definition copy_fragmentations :: "fragdb \<Rightarrow> fragdb \<Rightarrow> fragdb" where
  "copy_fragmentations old db =
     db\<lparr>fragmentation :=
          insert_rows fr_id (\<lambda>i f. f\<lparr>fr_id := i\<rparr>) (fragmentation db)
            (selected_fragmentations old db)\<rparr>"

definition fragdb_merge_sql :: "fragdb \<Rightarrow> fragdb \<Rightarrow> fragdb" where
  "fragdb_merge_sql old db =
     copy_fragmentations old (copy_records old (copy_error_records old db))"

subsection \<open>Errors, files, the output connection\<close>

datatype error =
    Die "string list"
  | OperationalError string
  | KeyError string
  | AssertionError string
  | AttributeError

datatype disk_file = NotFragDB | FragDB fragdb

text \<open>
  What the code takes from outside: Python's \<open>repr\<close>, the message of the
  \<open>ValueError\<close> that \<open>open_fragdb\<close> raises on a file that is no fragment database,
  and the \<open>OperationalError\<close> (if any) of \<open>sqlite3.connect\<close> on the output path and
  of \<open>ATTACH DATABASE\<close> on an input path.
\<close>

record env =
  repr :: "pyval \<Rightarrow> string"
  open_error :: "string \<Rightarrow> string"
  connect_error :: "string \<Rightarrow> string option"
  attach_error :: "string \<Rightarrow> string option"

record connection =
  c_filename :: string
  c_main :: fragdb
  c_in_transaction :: bool
  c_old :: "fragdb option"

record merge_state =
  files :: "string \<rightharpoonup> disk_file"
  first :: "(string \<times> options) option"
  output_c :: "connection option"

type_synonym outcome = "merge_state \<times> error option"

text \<open>Statements run one after the other until one raises.\<close>

definition and_then :: "(merge_state \<Rightarrow> outcome) \<Rightarrow> (merge_state \<Rightarrow> outcome) \<Rightarrow> merge_state \<Rightarrow> outcome" where
  "and_then f g st = (case f st of (st', None) \<Rightarrow> g st' | (st', Some e) \<Rightarrow> (st', Some e))"

text \<open>
  \<open>try: body finally: handler\<close>: the handler runs in the state the body left; an
  exception of the handler replaces the body's.
\<close>

definition try_finally :: "(merge_state \<Rightarrow> outcome) \<Rightarrow> (merge_state \<Rightarrow> outcome) \<Rightarrow> merge_state \<Rightarrow> outcome" where
  "try_finally body handler st =
     (case body st of (st1, e1) \<Rightarrow>
        (case handler st1 of (st2, None) \<Rightarrow> (st2, e1) | (st2, Some e2) \<Rightarrow> (st2, Some e2)))"

text \<open>
  Modelled from the spec: \<open>die\<close> of click\_utils (not in the sources) ends the run
  with a non-zero exit and the given lines as its diagnostic.
\<close>

definition die :: "string list \<Rightarrow> error" where
  "die lines = Die lines"

text \<open>The diagnostics of lines 162 and 172-176.\<close>

definition attach_failure :: "env \<Rightarrow> string \<Rightarrow> string \<Rightarrow> error" where
  "attach_failure ev filename err =
     die [''Cannot attach '' @ repr ev (PyStr filename) @ '' using sqlite3: '' @ err]"

definition duplicate_error :: "env \<Rightarrow> string \<Rightarrow> string \<Rightarrow> error" where
  "duplicate_error ev filename title =
     die [''Cannot merge '' @ repr ev (PyStr filename) @
            '': Duplicate record id '' @ repr ev (PyStr title) @ ''.'',
          ''  (Use 'fragdb_merge' to merge fragdb files from fragmenting different SMILES files,'',
          ''   not to merge the fragdb files generated by 'fragdb_split'.)'']"

text \<open>
  Modelled from the spec: \<open>fragment_db.open_fragdb\<close> (not in the sources) checks that
  the file is a fragment database and gives access to its stored options; it raises
  \<open>ValueError\<close> otherwise.
\<close>

definition open_fragdb :: "env \<Rightarrow> (string \<rightharpoonup> disk_file) \<Rightarrow> string \<Rightarrow> string + fragdb" where
  "open_fragdb ev fs filename =
     (case fs filename of Some (FragDB db) \<Rightarrow> Inr db | _ \<Rightarrow> Inl (open_error ev filename))"

text \<open>
  \<open>COMMIT\<close> makes the connection's view of the main database the content of its file;
  sqlite refuses it outside a transaction, and refuses \<open>BEGIN\<close> inside one.
\<close>

definition execute_COMMIT :: "merge_state \<Rightarrow> outcome" where
  "execute_COMMIT st =
     (case output_c st of
        None \<Rightarrow> (st, Some AttributeError)
      | Some c \<Rightarrow>
          if c_in_transaction c
          then (st\<lparr>files := (files st)(c_filename c \<mapsto> FragDB (c_main c)),
                    output_c := Some (c\<lparr>c_in_transaction := False\<rparr>)\<rparr>, None)
          else (st, Some (OperationalError ''cannot commit - no transaction is active'')))"

definition execute_DETACH :: "merge_state \<Rightarrow> outcome" where
  "execute_DETACH st =
     (case output_c st of
        None \<Rightarrow> (st, Some AttributeError)
      | Some c \<Rightarrow>
          (case c_old c of
             None \<Rightarrow> (st, Some (OperationalError ''no such database: old''))
           | Some _ \<Rightarrow> (st\<lparr>output_c := Some (c\<lparr>c_old := None\<rparr>)\<rparr>, None)))"

definition execute_BEGIN :: "merge_state \<Rightarrow> outcome" where
  "execute_BEGIN st =
     (case output_c st of
        None \<Rightarrow> (st, Some AttributeError)
      | Some c \<Rightarrow>
          if c_in_transaction c
          then (st, Some (OperationalError ''cannot start a transaction within a transaction''))
          else (st\<lparr>output_c := Some (c\<lparr>c_in_transaction := True\<rparr>)\<rparr>, None))"

text \<open>
  Lines 159-162: \<open>ATTACH DATABASE ? AS old\<close>; an \<open>OperationalError\<close> becomes a
  \<open>die\<close>. The attached database is the content of the file at that moment.
\<close>

definition execute_ATTACH :: "env \<Rightarrow> string \<Rightarrow> merge_state \<Rightarrow> outcome" where
  "execute_ATTACH ev filename st =
     (case output_c st of
        None \<Rightarrow> (st, Some AttributeError)
      | Some c \<Rightarrow>
          (case (case attach_error ev filename of
                   Some err \<Rightarrow> Inl err
                 | None \<Rightarrow>
                     (case c_old c of
                        Some _ \<Rightarrow> Inl ''database old is already in use''
                      | None \<Rightarrow>
                          (case files st filename of
                             Some (FragDB db) \<Rightarrow> Inr db
                           | _ \<Rightarrow> Inl ''unable to open database file''))) of
             Inl err \<Rightarrow> (st, Some (attach_failure ev filename err))
           | Inr db \<Rightarrow> (st\<lparr>output_c := Some (c\<lparr>c_old := Some db\<rparr>)\<rparr>, None)))"

subsection \<open>\<open>open_output_fragdb\<close>\<close>

text \<open>
  \<open>os.unlink\<close> removes the file, or raises \<open>FileNotFoundError\<close> (the \<open>Inl\<close> result)
  when there is none. \<open>open_output_fragdb\<close> returns the file system as it leaves it,
  with the connection or the \<open>OperationalError\<close> of \<open>sqlite3.connect\<close>.
\<close>

definition unlink :: "(string \<rightharpoonup> disk_file) \<Rightarrow> string \<Rightarrow> unit + (string \<rightharpoonup> disk_file)" where
  "unlink fs filename =
     (case fs filename of None \<Rightarrow> Inl () | Some _ \<Rightarrow> Inr (fs(filename := None)))"

text \<open>
  Modelled from the spec: \<open>fragment_db.init_fragdb\<close> and the index statements (not in
  the sources) create the empty tables and store the options. The tables are created at
  once; the insert of the options opens Python's implicit transaction, so the options
  are pending until the next \<open>COMMIT\<close>.
\<close>

definition init_fragdb :: "string \<Rightarrow> options \<Rightarrow> connection" where
  "init_fragdb filename opts =
     \<lparr>c_filename = filename, c_main = empty_fragdb opts,
      c_in_transaction = True, c_old = None\<rparr>"

definition open_output_fragdb ::
    "env \<Rightarrow> (string \<rightharpoonup> disk_file) \<Rightarrow> string \<Rightarrow> options \<Rightarrow> (string \<rightharpoonup> disk_file) \<times> (string + connection)" where
  "open_output_fragdb ev fs filename opts =
     (let fs1 = (case unlink fs filename of Inl _ \<Rightarrow> fs | Inr fs' \<Rightarrow> fs')
      in case connect_error ev filename of
           Some err \<Rightarrow> (fs1, Inl err)
         | None \<Rightarrow> (fs1(filename \<mapsto> FragDB (empty_fragdb [])), Inr (init_fragdb filename opts)))"

subsection \<open>\<open>check_options_mismatch\<close>\<close>

text \<open>
  Line 91, \<open>d == first_d\<close> on dictionaries kept as association lists in key order:
  the same keys with the same values.
\<close>

definition dict_eq :: "options \<Rightarrow> options \<Rightarrow> bool" where
  "dict_eq d first_d =
     list_all (\<lambda>k. map_of d k = map_of first_d k) (map fst d @ map fst first_d)"

text \<open>
  Line 95 and line 98: the header that names both files, and the line of one field
  whose values differ.
\<close>

definition mismatch_header :: "env \<Rightarrow> string \<Rightarrow> string \<Rightarrow> string" where
  "mismatch_header ev filename first_filename =
     ''Cannot merge. The options in '' @ repr ev (PyStr filename) @
     '' differ from '' @ repr ev (PyStr first_filename) @ ''.''"

definition mismatch_line :: "env \<Rightarrow> string \<Rightarrow> pyval \<Rightarrow> pyval \<Rightarrow> string" where
  "mismatch_line ev k v v' = ''  '' @ k @ '': '' @ repr ev v @ '' != '' @ repr ev v'"

text \<open>
  Lines 96-98: \<open>for k in d\<close>, with the \<open>KeyError\<close> of \<open>first_d[k]\<close> on a key
  that \<open>first_d\<close> lacks.
\<close>

fun mismatch_lines :: "env \<Rightarrow> options \<Rightarrow> options \<Rightarrow> string list \<Rightarrow> error + string list" where
  "mismatch_lines ev d first_d [] = Inr []"
| "mismatch_lines ev d first_d (k # ks) =
     (case (map_of d k, map_of first_d k) of
        (Some v, Some v') \<Rightarrow>
          (case mismatch_lines ev d first_d ks of
             Inl e \<Rightarrow> Inl e
           | Inr ls \<Rightarrow>
               Inr ((if v \<noteq> v' then [mismatch_line ev k v v'] else []) @ ls))
      | _ \<Rightarrow> Inl (KeyError k))"

definition check_options_mismatch :: "env \<Rightarrow> string \<Rightarrow> options \<Rightarrow> string \<Rightarrow> options \<Rightarrow> error option" where
  "check_options_mismatch ev filename opts first_filename first_options =
     (if dict_eq opts first_options then None
      else (case mismatch_lines ev opts first_options (map fst opts) of
              Inl e \<Rightarrow> Some e
            | Inr ls \<Rightarrow> Some (die (mismatch_header ev filename first_filename # ls))))"

subsection \<open>\<open>fragdb_merge\<close>\<close>

text \<open>
  Lines 166-170: the titles of the attached database's records that the output already
  holds, \<open>old_record\<close> in the outer loop as the FROM clause lists it.
\<close>

definition duplicate_titles :: "fragdb \<Rightarrow> fragdb \<Rightarrow> string list" where
  "duplicate_titles old db =
     concat (map (\<lambda>old_record.
       concat (map (\<lambda>new_record.
         if rr_title old_record = rr_title new_record then [rr_title old_record] else [])
       (record_tbl db)))
     (record_tbl old))"

text \<open>Lines 164-179, the body of the inner \<open>try\<close>.\<close>

definition check_and_copy :: "env \<Rightarrow> string \<Rightarrow> merge_state \<Rightarrow> outcome" where
  "check_and_copy ev filename st =
     (case output_c st of
        None \<Rightarrow> (st, Some AttributeError)
      | Some c \<Rightarrow>
          (case c_old c of
             None \<Rightarrow> (st, Some (OperationalError ''no such table: old.record''))
           | Some old \<Rightarrow>
               (case duplicate_titles old (c_main c) of
                  title # _ \<Rightarrow> (st, Some (duplicate_error ev filename title))
                | [] \<Rightarrow>
                    (st\<lparr>output_c := Some (c\<lparr>c_main := fragdb_merge_sql old (c_main c),
                                              c_in_transaction := True\<rparr>)\<rparr>, None))))"

text \<open>Lines 146-157: the first input opens the output, a later one is compared with it.\<close>

definition first_or_check :: "env \<Rightarrow> string \<Rightarrow> string \<Rightarrow> options \<Rightarrow> merge_state \<Rightarrow> outcome" where
  "first_or_check ev output_filename filename old_options st =
     (case first st of
        None \<Rightarrow>
          (case open_output_fragdb ev (files st) output_filename old_options of
             (fs', Inl err) \<Rightarrow>
               (st\<lparr>files := fs', first := Some (filename, old_options)\<rparr>,
                Some (die [''Error trying to open '' @ repr ev (PyStr output_filename) @
                           '' for writing: '' @ err]))
           | (fs', Inr c) \<Rightarrow>
               (st\<lparr>files := fs', first := Some (filename, old_options), output_c := Some c\<rparr>,
                None))
      | Some (first_filename, first_options) \<Rightarrow>
          (st, check_options_mismatch ev filename old_options first_filename first_options))"

text \<open>Lines 138-184, one round of the loop.\<close>

definition merge_one :: "env \<Rightarrow> string \<Rightarrow> string \<Rightarrow> merge_state \<Rightarrow> outcome" where
  "merge_one ev output_filename filename st =
     (case open_fragdb ev (files st) filename of
        Inl msg \<Rightarrow> (st, Some (die [msg]))
      | Inr old_db \<Rightarrow>
          and_then (first_or_check ev output_filename filename (db_options old_db))
            (and_then (execute_ATTACH ev filename)
               (try_finally (check_and_copy ev filename)
                  (and_then execute_COMMIT (and_then execute_DETACH execute_BEGIN)))) st)"

fun merge_loop :: "env \<Rightarrow> string \<Rightarrow> string list \<Rightarrow> merge_state \<Rightarrow> outcome" where
  "merge_loop ev output_filename [] st = (st, None)"
| "merge_loop ev output_filename (filename # filenames) st =
     and_then (merge_one ev output_filename filename)
       (merge_loop ev output_filename filenames) st"

text \<open>Python's \<open>str\<close> of a non-negative integer.\<close>

fun str_nat :: "nat \<Rightarrow> string" where
  "str_nat n =
     (if n < 10 then [''0123456789'' ! n]
      else str_nat (n div 10) @ [''0123456789'' ! (n mod 10)])"

declare str_nat.simps [simp del]

record merge_result =
  r_files :: "string \<rightharpoonup> disk_file"
  r_reports :: "string list"
  r_error :: "error option"

text \<open>
  Lines 186-192, the outer \<open>finally\<close>: with an output connection, commit and count
  the rows of \<open>record\<close> and \<open>error_record\<close>.
\<close>

definition final_counts :: "outcome \<Rightarrow> merge_state \<times> (nat \<times> nat) option \<times> error option" where
  "final_counts r =
     (case r of (st, e) \<Rightarrow>
        (case output_c st of
           None \<Rightarrow> (st, None, e)
         | Some _ \<Rightarrow>
             (case execute_COMMIT st of
                (st', Some e') \<Rightarrow> (st', None, Some e')
              | (st', None) \<Rightarrow>
                  (case output_c st' of
                     None \<Rightarrow> (st', None, Some AttributeError)
                   | Some c \<Rightarrow>
                       (st'\<lparr>output_c := None\<rparr>,
                        Some (length (record_tbl (c_main c)), length (error_record (c_main c))),
                        e)))))"

definition merge_report :: "nat \<Rightarrow> nat \<Rightarrow> nat \<Rightarrow> string" where
  "merge_report num_files num_records num_error_records =
     ''Merge complete. '' @
     ''#files: '' @ str_nat num_files @ '' '' @
     ''#records: '' @ str_nat num_records @ '' '' @
     ''#error records: '' @ str_nat num_error_records"

text \<open>Lines 126-128: the default output path and the notice reported with it.\<close>

definition output_path :: "string option \<Rightarrow> string" where
  "output_path output_option =
     (case output_option of None \<Rightarrow> ''merged.fragdb'' | Some f \<Rightarrow> f)"

definition notice :: "env \<Rightarrow> string option \<Rightarrow> string list" where
  "notice ev output_option =
     (case output_option of
        None \<Rightarrow> [''No --output file name specified. Using '' @
                  repr ev (PyStr (output_path output_option)) @ ''.'']
      | Some _ \<Rightarrow> [])"

text \<open>
  The command. The result holds the file system the run leaves, the lines given to the
  reporter, and the exception that ended the run, if any; the final report is reached
  only without one.
\<close>

definition fragdb_merge :: "env \<Rightarrow> (string \<rightharpoonup> disk_file) \<Rightarrow> string list \<Rightarrow> string option \<Rightarrow> merge_result" where
  "fragdb_merge ev fs filenames output_option =
     (if filenames = []
      then \<lparr>r_files = fs, r_reports = [],
            r_error = Some (AssertionError ''should have been handled by click'')\<rparr>
      else
        case final_counts
               (merge_loop ev (output_path output_option) filenames
                  \<lparr>files = fs, first = None, output_c = None\<rparr>) of
          (st, Some (num_records, num_error_records), None) \<Rightarrow>
            \<lparr>r_files = files st,
             r_reports = notice ev output_option @
               [merge_report (length filenames) num_records num_error_records],
             r_error = None\<rparr>
        | (st, _, e) \<Rightarrow>
            \<lparr>r_files = files st, r_reports = notice ev output_option, r_error = e\<rparr>)"


section \<open>What the claims speak of\<close>

subsection \<open>Rows without their identifiers, titles, owners\<close>



type_synonym fragmentation_data =
  "int \<times> string \<times> int \<times> string \<times> string \<times> string \<times> int \<times> string \<times> string \<times> string"

definition fragmentation_columns :: "fragmentation_row \<Rightarrow> fragmentation_data" where
  "fragmentation_columns f =
     (fr_num_cuts f, fr_enumeration_label f, fr_variable_num_heavies f,
      fr_variable_symmetry_class f, fr_variable_smiles f, fr_attachment_order f,
      fr_constant_num_heavies f, fr_constant_symmetry_class f, fr_constant_smiles f,
      fr_constant_with_H_smiles f)"

definition titles :: "fragdb \<Rightarrow> string list" where
  "titles db = map rr_title (record_tbl db)"

text \<open>
  The title of the record a fragmentation's \<open>record_id\<close> refers to, and the
  fragmentations attached to a title.
\<close>

definition owner_title :: "fragdb \<Rightarrow> fragmentation_row \<Rightarrow> string option" where
  "owner_title db f =
     map_of (map (\<lambda>r. (rr_id r, rr_title r)) (record_tbl db)) (fr_record_id f)"

definition fragmentations_of :: "fragdb \<Rightarrow> string \<Rightarrow> fragmentation_data list" where
  "fragmentations_of db t =
     map fragmentation_columns (filter (\<lambda>f. owner_title db f = Some t) (fragmentation db))"


text \<open>
  A valid fragment database: record ids are a key, titles are unique within the
  database, and every fragmentation refers to a record of the database.
\<close>

definition valid_fragdb :: "fragdb \<Rightarrow> bool" where
  "valid_fragdb db \<longleftrightarrow>
     distinct (map rr_id (record_tbl db)) \<and>
     distinct (titles db) \<and>
     list_all (\<lambda>f. fr_record_id f \<in> set (map rr_id (record_tbl db))) (fragmentation db)"

subsection \<open>Files\<close>

definition is_fragdb :: "(string \<rightharpoonup> disk_file) \<Rightarrow> string \<Rightarrow> bool" where
  "is_fragdb fs filename =
     (case fs filename of Some (FragDB db) \<Rightarrow> True | _ \<Rightarrow> False)"

text \<open>The database stored at a path (an empty one where there is none).\<close>

definition fragdb_at :: "(string \<rightharpoonup> disk_file) \<Rightarrow> string \<Rightarrow> fragdb" where
  "fragdb_at fs filename =
     (case fs filename of Some (FragDB db) \<Rightarrow> db | _ \<Rightarrow> empty_fragdb [])"


subsection \<open>The rounds of the loop, seen from outside\<close>

text \<open>
  The state between two rounds: the output file holds what the connection sees, a
  transaction is open, nothing is attached.
\<close>

definition between :: "string \<Rightarrow> string \<times> options \<Rightarrow> fragdb \<Rightarrow> (string \<rightharpoonup> disk_file) \<Rightarrow> merge_state" where
  "between out fo db fs =
     \<lparr>files = fs(out \<mapsto> FragDB db), first = Some fo,
      output_c = Some \<lparr>c_filename = out, c_main = db, c_in_transaction = True, c_old = None\<rparr>\<rparr>"

text \<open>The rows that step 3 selects for one record of the output.\<close>

definition joined :: "fragdb \<Rightarrow> record_row \<Rightarrow> fragmentation_row list" where
  "joined old n =
     concat (map (\<lambda>orow. if rr_title orow = rr_title n
                         then map (\<lambda>f. f\<lparr>fr_record_id := rr_id n\<rparr>)
                                (filter (\<lambda>f. fr_record_id f = rr_id orow) (fragmentation old))
                         else [])
       (record_tbl old))"

text \<open>The database after the statements have run for each file in turn.\<close>

fun merged :: "(string \<rightharpoonup> disk_file) \<Rightarrow> string list \<Rightarrow> fragdb \<Rightarrow> fragdb" where
  "merged fs [] db = db"
| "merged fs (f # rest) db = merged fs rest (fragdb_merge_sql (fragdb_at fs f) db)"

definition output_db :: "(string \<rightharpoonup> disk_file) \<Rightarrow> string list \<Rightarrow> fragdb" where
  "output_db fs fnames = merged fs fnames (empty_fragdb (db_options (fragdb_at fs (hd fnames))))"

text \<open>The checks that every later round passes, and those of the whole run.\<close>

fun accepted :: "env \<Rightarrow> (string \<rightharpoonup> disk_file) \<Rightarrow> string \<times> options \<Rightarrow> string list \<Rightarrow> fragdb \<Rightarrow> bool" where
  "accepted ev fs fo [] db = True"
| "accepted ev fs fo (f # rest) db =
     (is_fragdb fs f \<and>
      check_options_mismatch ev f (db_options (fragdb_at fs f)) (fst fo) (snd fo) = None \<and>
      attach_error ev f = None \<and>
      duplicate_titles (fragdb_at fs f) db = [] \<and>
      accepted ev fs fo rest (fragdb_merge_sql (fragdb_at fs f) db))"

definition accepts :: "env \<Rightarrow> (string \<rightharpoonup> disk_file) \<Rightarrow> string list \<Rightarrow> string \<Rightarrow> bool" where
  "accepts ev fs fnames out =
     (case fnames of
        [] \<Rightarrow> False
      | f # rest \<Rightarrow>
          is_fragdb fs f \<and> connect_error ev out = None \<and> attach_error ev f = None \<and>
          accepted ev fs (f, db_options (fragdb_at fs f)) rest
            (fragdb_merge_sql (fragdb_at fs f) (empty_fragdb (db_options (fragdb_at fs f)))))"


text \<open>
  Every fragmentation of \<open>db\<close> refers to a record of \<open>db\<close>, whose title is that
  of the record owning a fragmentation with the same columns in one of the inputs.
\<close>

definition resolves :: "(string \<rightharpoonup> disk_file) \<Rightarrow> string set \<Rightarrow> fragdb \<Rightarrow> bool" where
  "resolves fs inputs db \<longleftrightarrow>
     distinct (map rr_id (record_tbl db)) \<and>
     (\<forall>f \<in> set (fragmentation db).
        \<exists>n \<in> set (record_tbl db). rr_id n = fr_record_id f \<and>
          (\<exists>fn \<in> inputs. \<exists>r0 \<in> set (record_tbl (fragdb_at fs fn)).
             \<exists>f0 \<in> set (fragmentation (fragdb_at fs fn)).
               fr_record_id f0 = rr_id r0 \<and> rr_title r0 = rr_title n \<and>
               fragmentation_columns f0 = fragmentation_columns f))"

subsection \<open>Example inputs\<close>

text \<open>
  Two databases with the records mol1, mol2 (three fragmentations) and mol3 (one
  fragmentation); one that holds mol2 again; one that holds mol2 again under another
  \<open>num_cuts\<close> option; and two with different records whose error records share the
  title bad1, the second also with an error record titled like the first's record, mol5.
\<close>

definition example_env :: env where
  "example_env =
     \<lparr>repr = (\<lambda>v. case v of
                   PyNone \<Rightarrow> ''None''
                 | PyInt i \<Rightarrow> (if i < 0 then ''-'' else []) @ str_nat (nat \<bar>i\<bar>)
                 | PyStr s \<Rightarrow> [CHR 0x27] @ s @ [CHR 0x27]),
      open_error = (\<lambda>f. f @ '' is not a fragment database''),
      connect_error = (\<lambda>f. None),
      attach_error = (\<lambda>f. None)\<rparr>"

definition example_options :: options where
  "example_options = [(''num_cuts'', PyInt 3), (''method'', PyStr ''chiral'')]"

definition example_record :: "nat \<Rightarrow> string \<Rightarrow> record_row" where
  "example_record i t =
     \<lparr>rr_id = i, rr_title = t, rr_input_smiles = ''CCO'', rr_num_normalized_heavies = 3,
      rr_normalized_smiles = ''CCO''\<rparr>"

definition example_fragmentation :: "nat \<Rightarrow> nat \<Rightarrow> string \<Rightarrow> fragmentation_row" where
  "example_fragmentation i r label =
     \<lparr>fr_id = i, fr_record_id = r, fr_num_cuts = 1, fr_enumeration_label = label,
      fr_variable_num_heavies = 1, fr_variable_symmetry_class = ''1'',
      fr_variable_smiles = ''[*]O'', fr_attachment_order = ''0'',
      fr_constant_num_heavies = 2, fr_constant_symmetry_class = ''1'',
      fr_constant_smiles = ''[*]CC'', fr_constant_with_H_smiles = ''CC''\<rparr>"

definition example_error :: "nat \<Rightarrow> string \<Rightarrow> error_row" where
  "example_error i t =
     \<lparr>er_id = i, er_title = t, er_input_smiles = ''Q'', er_errmsg = ''invalid smiles''\<rparr>"

definition example_a :: fragdb where
  "example_a =
     \<lparr>db_options = example_options, error_record = [],
      record_tbl = [example_record 5 ''mol1'', example_record 7 ''mol2''],
      fragmentation = [example_fragmentation 1 7 ''N'', example_fragmentation 2 5 ''N'',
                       example_fragmentation 3 7 ''C'']\<rparr>"

definition example_b :: fragdb where
  "example_b =
     \<lparr>db_options = example_options, error_record = [],
      record_tbl = [example_record 1 ''mol3''],
      fragmentation = [example_fragmentation 1 1 ''N'']\<rparr>"

definition example_c :: fragdb where
  "example_c =
     \<lparr>db_options = example_options, error_record = [],
      record_tbl = [example_record 1 ''mol9'', example_record 2 ''mol2''],
      fragmentation = [example_fragmentation 1 2 ''N'']\<rparr>"

definition example_d :: fragdb where
  "example_d =
     \<lparr>db_options = [(''num_cuts'', PyInt 2), (''method'', PyStr ''chiral'')],
      error_record = [],
      record_tbl = [example_record 1 ''mol4'', example_record 2 ''mol2''],
      fragmentation = [example_fragmentation 1 2 ''N'']\<rparr>"

definition example_e1 :: fragdb where
  "example_e1 =
     \<lparr>db_options = example_options, error_record = [example_error 1 ''bad1''],
      record_tbl = [example_record 1 ''mol5''],
      fragmentation = [example_fragmentation 1 1 ''N'']\<rparr>"

definition example_e2 :: fragdb where
  "example_e2 =
     \<lparr>db_options = example_options,
      error_record = [example_error 1 ''bad1'', example_error 2 ''mol5''],
      record_tbl = [example_record 1 ''mol6''], fragmentation = []\<rparr>"

definition example_files :: "string \<rightharpoonup> disk_file" where
  "example_files =
     [''a.fragdb'' \<mapsto> FragDB example_a, ''b.fragdb'' \<mapsto> FragDB example_b,
      ''c.fragdb'' \<mapsto> FragDB example_c, ''d.fragdb'' \<mapsto> FragDB example_d,
      ''e1.fragdb'' \<mapsto> FragDB example_e1, ''e2.fragdb'' \<mapsto> FragDB example_e2,
      ''notes.txt'' \<mapsto> NotFragDB]"

section \<open>Lemmas\<close>

subsection \<open>Row identifiers and inserts\<close>

lemma fold_max_ge: "a \<le> fold max ids (a::nat)"
  by (induction ids arbitrary: a) (auto intro: order_trans [OF max.cobounded2])

lemma fold_max_mem: "x \<in> set ids \<Longrightarrow> x \<le> fold max ids (a::nat)"
proof (induction ids arbitrary: a)
  case Nil
  then show ?case by simp
next
  case (Cons y ys)
  show ?case
  proof (cases "x = y")
    case True
    have "y \<le> max y a" by simp
    also have "\<dots> \<le> fold max ys (max y a)" by (rule fold_max_ge)
    finally show ?thesis using True by simp
  next
    case False
    with Cons show ?thesis by simp
  qed
qed

lemma next_rowid_fresh: "x \<in> set ids \<Longrightarrow> x < next_rowid ids"
  by (simp add: next_rowid_def fold_max_mem less_Suc_eq_le)

lemma insert_rows_map:
  "(\<And>i r. g (set_id i r) = g r) \<Longrightarrow>
   map g (insert_rows rid set_id tbl rs) = map g tbl @ map g rs"
  by (induction rs arbitrary: tbl) simp_all

lemma insert_rows_length:
  "length (insert_rows rid set_id tbl rs) = length tbl + length rs"
  by (induction rs arbitrary: tbl) simp_all

lemma insert_rows_append:
  "\<exists>new. insert_rows rid set_id tbl rs = tbl @ new"
proof (induction rs arbitrary: tbl)
  case Nil
  then show ?case by simp
next
  case (Cons r rs)
  from Cons [of "tbl @ [set_id (next_rowid (map rid tbl)) r]"]
  show ?case by auto
qed

lemma insert_rows_distinct:
  "(\<And>i r. rid (set_id i r) = i) \<Longrightarrow> distinct (map rid tbl) \<Longrightarrow>
   distinct (map rid (insert_rows rid set_id tbl rs))"
proof (induction rs arbitrary: tbl)
  case Nil
  then show ?case by simp
next
  case (Cons r rs)
  have "next_rowid (map rid tbl) \<notin> set (map rid tbl)"
    using next_rowid_fresh [of "next_rowid (map rid tbl)" "map rid tbl"] by auto
  with Cons.prems have "distinct (map rid (tbl @ [set_id (next_rowid (map rid tbl)) r]))"
    by simp
  with Cons show ?case by simp
qed

text \<open>A scan by a key that at most one element has.\<close>

lemma concat_map_no_hit:
  "t \<notin> k ` set xs \<Longrightarrow> concat (map (\<lambda>x. if k x = t then h x else []) xs) = []"
  by (induction xs) auto

lemma concat_map_one_hit:
  "distinct (map k xs) \<Longrightarrow> x \<in> set xs \<Longrightarrow>
   concat (map (\<lambda>y. if k y = k x then h y else []) xs) = h x"
proof (induction xs)
  case Nil
  then show ?case by simp
next
  case (Cons y ys)
  show ?case
  proof (cases "y = x")
    case True
    with Cons.prems have "k x \<notin> k ` set ys" by auto
    then show ?thesis using True by (simp add: concat_map_no_hit)
  next
    case False
    with Cons.prems have "x \<in> set ys" "k y \<noteq> k x" by force+
    with Cons show ?thesis by simp
  qed
qed

lemma concat_map_guard:
  "concat (map (\<lambda>f. if A \<and> B f then [g f] else []) fs) =
   (if A then map g (filter B fs) else [])"
  by (induction fs) auto

lemma owner_title_member:
  assumes "distinct (map rr_id (record_tbl db))" "r \<in> set (record_tbl db)"
    "fr_record_id f = rr_id r"
  shows "owner_title db f = Some (rr_title r)"
proof -
  have "distinct (map fst (map (\<lambda>r. (rr_id r, rr_title r)) (record_tbl db)))"
    using assms(1) by (simp add: comp_def)
  moreover have "(rr_id r, rr_title r) \<in> set (map (\<lambda>r. (rr_id r, rr_title r)) (record_tbl db))"
    using assms(2) by auto
  ultimately show ?thesis
    unfolding owner_title_def using assms(3) by (metis map_of_is_SomeI)
qed

lemma owner_title_in_titles: "owner_title db f = Some t \<Longrightarrow> t \<in> set (titles db)"
  unfolding owner_title_def titles_def by (auto dest!: map_of_SomeD)

lemma owner_title_id:
  "owner_title db f = Some t \<Longrightarrow> \<exists>r \<in> set (record_tbl db). rr_id r = fr_record_id f \<and> rr_title r = t"
  unfolding owner_title_def by (fastforce dest!: map_of_SomeD)

lemma owner_title_append:
  assumes "record_tbl db' = record_tbl db @ new"
    and "fr_record_id f \<in> set (map rr_id (record_tbl db))"
  shows "owner_title db' f = owner_title db f"
proof -
  have "fr_record_id f \<in> dom (map_of (map (\<lambda>r. (rr_id r, rr_title r)) (record_tbl db)))"
    using assms(2) by (simp add: dom_map_of_conv_image_fst image_image)
  then show ?thesis
    unfolding owner_title_def assms(1) by (auto simp: map_add_dom_app_simps)
qed

subsection \<open>The three statements\<close>

lemma copy_error_records_simps [simp]:
  "record_tbl (copy_error_records old db) = record_tbl db"
  "fragmentation (copy_error_records old db) = fragmentation db"
  "db_options (copy_error_records old db) = db_options db"
  by (simp_all add: copy_error_records_def)

lemma copy_records_simps [simp]:
  "error_record (copy_records old db) = error_record db"
  "fragmentation (copy_records old db) = fragmentation db"
  "db_options (copy_records old db) = db_options db"
  by (simp_all add: copy_records_def)

lemma copy_fragmentations_simps [simp]:
  "error_record (copy_fragmentations old db) = error_record db"
  "record_tbl (copy_fragmentations old db) = record_tbl db"
  "db_options (copy_fragmentations old db) = db_options db"
  by (simp_all add: copy_fragmentations_def)



lemma titles_merge: "titles (fragdb_merge_sql old db) = titles db @ titles old"
  by (simp add: titles_def fragdb_merge_sql_def copy_records_def insert_rows_map)

lemma options_merge [simp]: "db_options (fragdb_merge_sql old db) = db_options db"
  by (simp add: fragdb_merge_sql_def)

lemma record_ids_merge:
  "distinct (map rr_id (record_tbl db)) \<Longrightarrow>
   distinct (map rr_id (record_tbl (fragdb_merge_sql old db)))"
  by (simp add: fragdb_merge_sql_def copy_records_def insert_rows_distinct)

lemma record_tbl_merge_append:
  "\<exists>new. record_tbl (fragdb_merge_sql old db) = record_tbl db @ new"
  by (simp add: fragdb_merge_sql_def copy_records_def insert_rows_append)

lemma selected_record_ids:
  "f \<in> set (selected_fragmentations old db) \<Longrightarrow> fr_record_id f \<in> set (map rr_id (record_tbl db))"
  unfolding selected_fragmentations_def by (auto split: if_splits)

lemma filter_by_key:
  assumes "map k xs = map k ys" and "\<And>x. P x = Q (k x)" and "\<And>x. c x = d (k x)"
  shows "map c (filter P xs) = map c (filter P ys)"
proof -
  have "map c (filter P zs) = map d (filter Q (map k zs))" for zs
    by (induction zs) (simp_all add: assms(2,3))
  then show ?thesis by (simp add: assms(1))
qed

lemma selected_joined:
  "selected_fragmentations old db = concat (map (joined old) (record_tbl db))"
  unfolding selected_fragmentations_def joined_def concat_map_guard ..

lemma joined_record_id: "f \<in> set (joined old n) \<Longrightarrow> fr_record_id f = rr_id n"
  unfolding joined_def by (auto split: if_splits)

lemma joined_no_title: "rr_title n \<notin> set (titles old) \<Longrightarrow> joined old n = []"
proof -
  assume "rr_title n \<notin> set (titles old)"
  then have "rr_title n \<notin> rr_title ` set (record_tbl old)" by (simp add: titles_def)
  from concat_map_no_hit [OF this] show ?thesis unfolding joined_def .
qed

lemma joined_title:
  assumes "distinct (titles old)" "orow \<in> set (record_tbl old)" "rr_title n = rr_title orow"
  shows "joined old n =
     map (\<lambda>f. f\<lparr>fr_record_id := rr_id n\<rparr>)
       (filter (\<lambda>f. fr_record_id f = rr_id orow) (fragmentation old))"
proof -
  have "distinct (map rr_title (record_tbl old))" using assms(1) by (simp add: titles_def)
  from concat_map_one_hit [OF this assms(2)] show ?thesis
    unfolding joined_def assms(3) .
qed

lemma fragmentations_of_title:
  assumes "valid_fragdb old" "orow \<in> set (record_tbl old)"
  shows "fragmentations_of old (rr_title orow) =
     map fragmentation_columns (filter (\<lambda>f. fr_record_id f = rr_id orow) (fragmentation old))"
proof -
  have ids: "distinct (map rr_id (record_tbl old))"
    and ts: "distinct (map rr_title (record_tbl old))"
    using assms(1) by (simp_all add: valid_fragdb_def titles_def)
  have "(owner_title old f = Some (rr_title orow)) = (fr_record_id f = rr_id orow)" for f
  proof
    assume "owner_title old f = Some (rr_title orow)"
    then obtain r where r: "r \<in> set (record_tbl old)" "rr_id r = fr_record_id f"
      "rr_title r = rr_title orow" using owner_title_id by blast
    from ts have "inj_on rr_title (set (record_tbl old))" by (simp add: distinct_map)
    with r assms(2) have "r = orow" by (auto dest: inj_onD)
    with r show "fr_record_id f = rr_id orow" by simp
  next
    assume "fr_record_id f = rr_id orow"
    with ids assms(2) show "owner_title old f = Some (rr_title orow)"
      by (rule owner_title_member)
  qed
  then show ?thesis by (simp add: fragmentations_of_def)
qed

lemma fragmentations_of_no_title:
  "t \<notin> set (titles db) \<Longrightarrow> fragmentations_of db t = []"
  by (auto simp: fragmentations_of_def filter_empty_conv dest: owner_title_in_titles)


lemma valid_fragdb_merge:
  assumes "valid_fragdb db" "set (titles db) \<inter> set (titles old) = {}" "distinct (titles old)"
  shows "valid_fragdb (fragdb_merge_sql old db)"
proof -
  let ?m = "fragdb_merge_sql old db"
  let ?m2 = "copy_records old (copy_error_records old db)"
  have ids: "distinct (map rr_id (record_tbl ?m))"
    using assms(1) by (simp add: valid_fragdb_def record_ids_merge)
  have ts: "distinct (titles ?m)"
    using assms by (simp add: titles_merge valid_fragdb_def)
  obtain new where new: "record_tbl ?m = record_tbl db @ new"
    using record_tbl_merge_append by blast
  have rt: "record_tbl ?m2 = record_tbl ?m" by (simp add: fragdb_merge_sql_def)
  have "map fr_record_id (fragmentation ?m) =
        map fr_record_id (fragmentation db) @ map fr_record_id (selected_fragmentations old ?m2)"
    by (simp add: fragdb_merge_sql_def copy_fragmentations_def insert_rows_map)
  then have "set (map fr_record_id (fragmentation ?m)) \<subseteq> set (map rr_id (record_tbl ?m))"
    using assms(1) selected_record_ids [of _ old ?m2] new
    by (auto simp: valid_fragdb_def list_all_iff rt)
  then have "list_all (\<lambda>f. fr_record_id f \<in> set (map rr_id (record_tbl ?m))) (fragmentation ?m)"
    by (auto simp: list_all_iff)
  with ids ts show ?thesis by (simp add: valid_fragdb_def)
qed

lemma fragmentations_of_merge:
  assumes vdb: "valid_fragdb db" and vold: "valid_fragdb old"
    and disj: "set (titles db) \<inter> set (titles old) = {}"
  shows "fragmentations_of (fragdb_merge_sql old db) t =
         fragmentations_of db t @ fragmentations_of old t"
proof -
  let ?m = "fragdb_merge_sql old db"
  let ?m2 = "copy_records old (copy_error_records old db)"
  let ?S = "selected_fragmentations old ?m2"
  let ?P = "\<lambda>f. owner_title ?m f = Some t"
  let ?k = "\<lambda>f. (fr_record_id f, fragmentation_columns f)"
  have told: "distinct (titles old)" using vold by (simp add: valid_fragdb_def)
  have vm: "valid_fragdb ?m" using vdb disj told by (rule valid_fragdb_merge)
  then have ids: "distinct (map rr_id (record_tbl ?m))"
    and ts: "distinct (map rr_title (record_tbl ?m))"
    by (simp_all add: valid_fragdb_def titles_def)
  obtain new where new: "record_tbl ?m = record_tbl db @ new"
    using record_tbl_merge_append by blast
  have rt: "record_tbl ?m2 = record_tbl ?m" by (simp add: fragdb_merge_sql_def)
  have S: "?S = concat (map (joined old) (record_tbl ?m))"
    by (simp add: selected_joined rt)
  have "map ?k (fragmentation ?m) = map ?k (fragmentation db @ ?S)"
    by (simp add: fragdb_merge_sql_def copy_fragmentations_def insert_rows_map
        fragmentation_columns_def)
  then have "map fragmentation_columns (filter ?P (fragmentation ?m)) =
             map fragmentation_columns (filter ?P (fragmentation db @ ?S))"
    by (rule filter_by_key [where Q = "\<lambda>p. map_of (map (\<lambda>r. (rr_id r, rr_title r)) (record_tbl ?m)) (fst p) = Some t" and d = snd])
      (simp_all add: owner_title_def)
  then have split: "fragmentations_of ?m t =
      map fragmentation_columns (filter ?P (fragmentation db)) @
      map fragmentation_columns (filter ?P ?S)"
    by (simp add: fragmentations_of_def)
  have part1: "filter ?P (fragmentation db) =
               filter (\<lambda>f. owner_title db f = Some t) (fragmentation db)"
  proof (rule filter_cong [OF refl])
    fix f assume "f \<in> set (fragmentation db)"
    with vdb have "fr_record_id f \<in> set (map rr_id (record_tbl db))"
      by (simp add: valid_fragdb_def list_all_iff)
    with new show "?P f = (owner_title db f = Some t)"
      by (simp add: owner_title_append)
  qed
  have per_row: "filter ?P (joined old n) = (if rr_title n = t then joined old n else [])"
    if "n \<in> set (record_tbl ?m)" for n
  proof -
    have "owner_title ?m f = Some (rr_title n)" if "f \<in> set (joined old n)" for f
      using ids \<open>n \<in> set (record_tbl ?m)\<close> joined_record_id [OF that]
      by (rule owner_title_member)
    then show ?thesis by (auto simp: filter_empty_conv filter_id_conv)
  qed
  have "filter ?P ?S = concat (map (\<lambda>n. filter ?P (joined old n)) (record_tbl ?m))"
    by (simp add: S filter_concat comp_def)
  also have "\<dots> = concat (map (\<lambda>n. if rr_title n = t then joined old n else []) (record_tbl ?m))"
    using per_row by (auto intro!: arg_cong [where f = concat] map_cong)
  finally have filt: "filter ?P ?S =
      concat (map (\<lambda>n. if rr_title n = t then joined old n else []) (record_tbl ?m))" .
  have part2: "map fragmentation_columns (filter ?P ?S) = fragmentations_of old t"
  proof (cases "t \<in> set (titles old)")
    case True
    then obtain orow where orow: "orow \<in> set (record_tbl old)" "rr_title orow = t"
      by (auto simp: titles_def)
    from True have "t \<in> set (titles ?m)" by (simp add: titles_merge)
    then obtain n where n: "n \<in> set (record_tbl ?m)" "rr_title n = t"
      by (auto simp: titles_def)
    have "filter ?P ?S = joined old n"
      using concat_map_one_hit [OF ts n(1), of "joined old"] by (simp add: filt n(2))
    also have "\<dots> = map (\<lambda>f. f\<lparr>fr_record_id := rr_id n\<rparr>)
        (filter (\<lambda>f. fr_record_id f = rr_id orow) (fragmentation old))"
      using told orow(1) by (rule joined_title) (simp add: n orow)
    finally have "map fragmentation_columns (filter ?P ?S) =
        map fragmentation_columns (filter (\<lambda>f. fr_record_id f = rr_id orow) (fragmentation old))"
      by (simp add: fragmentation_columns_def comp_def)
    also have "\<dots> = fragmentations_of old t"
      using fragmentations_of_title [OF vold orow(1)] by (simp add: orow(2))
    finally show ?thesis .
  next
    case False
    then have "(if rr_title n = t then joined old n else []) = []" for n
      by (auto simp: joined_no_title)
    then have "filter ?P ?S = []" by (simp add: filt)
    with False show ?thesis by (simp add: fragmentations_of_no_title)
  qed
  show ?thesis unfolding split part1 part2 by (simp add: fragmentations_of_def)
qed


subsection \<open>One round, and the loop\<close>

lemma dict_eq_refl [simp]: "dict_eq d d"
  by (simp add: dict_eq_def list_all_iff)

lemma check_options_same [simp]: "check_options_mismatch ev f d ff d = None"
  by (simp add: check_options_mismatch_def)

lemma duplicate_titles_empty [simp]: "record_tbl db = [] \<Longrightarrow> duplicate_titles old db = []"
  by (simp add: duplicate_titles_def)

lemma later_round:
  "merge_one ev out f (between out (ff, fo) db fs) =
     (case (fs(out \<mapsto> FragDB db)) f of
        Some (FragDB old) \<Rightarrow>
          (case check_options_mismatch ev f (db_options old) ff fo of
             Some e \<Rightarrow> (between out (ff, fo) db fs, Some e)
           | None \<Rightarrow>
               (case attach_error ev f of
                  Some err \<Rightarrow> (between out (ff, fo) db fs, Some (attach_failure ev f err))
                | None \<Rightarrow>
                    (case duplicate_titles old db of
                       title # _ \<Rightarrow> (between out (ff, fo) db fs, Some (duplicate_error ev f title))
                     | [] \<Rightarrow> (between out (ff, fo) (fragdb_merge_sql old db) fs, None))))
      | _ \<Rightarrow> (between out (ff, fo) db fs, Some (die [open_error ev f])))"
  by (simp add: merge_one_def open_fragdb_def between_def and_then_def try_finally_def
      first_or_check_def execute_ATTACH_def check_and_copy_def execute_COMMIT_def
      execute_DETACH_def execute_BEGIN_def duplicate_error_def attach_failure_def
      split: option.split disk_file.split list.split)


lemma first_round:
  "merge_one ev out f \<lparr>files = fs, first = None, output_c = None\<rparr> =
     (case fs f of
        Some (FragDB old) \<Rightarrow>
          (case connect_error ev out of
             Some err \<Rightarrow>
               (\<lparr>files = fs(out := None), first = Some (f, db_options old), output_c = None\<rparr>,
                Some (die [''Error trying to open '' @ repr ev (PyStr out) @
                           '' for writing: '' @ err]))
           | None \<Rightarrow>
               (case attach_error ev f of
                  Some err \<Rightarrow>
                    (\<lparr>files = fs(out \<mapsto> FragDB (empty_fragdb [])),
                      first = Some (f, db_options old),
                      output_c = Some (init_fragdb out (db_options old))\<rparr>,
                     Some (attach_failure ev f err))
                | None \<Rightarrow>
                    (between out (f, db_options old)
                       (fragdb_merge_sql (if f = out then empty_fragdb [] else old)
                          (empty_fragdb (db_options old))) fs, None)))
      | _ \<Rightarrow> (\<lparr>files = fs, first = None, output_c = None\<rparr>, Some (die [open_error ev f])))"
  by (simp add: merge_one_def open_fragdb_def between_def and_then_def try_finally_def
      first_or_check_def execute_ATTACH_def check_and_copy_def execute_COMMIT_def
      execute_DETACH_def execute_BEGIN_def attach_failure_def open_output_fragdb_def
      unlink_def init_fragdb_def empty_fragdb_def fun_upd_idem
      split: option.split disk_file.split list.split)


lemma later_rounds:
  assumes "out \<notin> set fnames"
  shows "(accepted ev fs fo fnames db \<longrightarrow>
            merge_loop ev out fnames (between out fo db fs) =
              (between out fo (merged fs fnames db) fs, None)) \<and>
         (\<not> accepted ev fs fo fnames db \<longrightarrow>
            (\<exists>db' e. merge_loop ev out fnames (between out fo db fs) =
              (between out fo db' fs, Some e)))"
  using assms
proof (induction fnames arbitrary: db)
  case Nil
  then show ?case by simp
next
  case (Cons f rest)
  obtain ff fopts where fo: "fo = (ff, fopts)" by (cases fo)
  from Cons.prems have ne: "f \<noteq> out" and rest: "out \<notin> set rest" by auto
  note IH = Cons.IH [OF rest]
  show ?case
    using ne IH [of "fragdb_merge_sql (fragdb_at fs f) db"]
    by (auto simp: fo and_then_def later_round fragdb_at_def is_fragdb_def
        split: option.split disk_file.split list.split prod.split)
qed




lemma final_counts_between:
  "final_counts (between out fo db fs, e) =
     (\<lparr>files = fs(out \<mapsto> FragDB db), first = Some fo, output_c = None\<rparr>,
      Some (length (record_tbl db), length (error_record db)), e)"
  by (simp add: final_counts_def between_def execute_COMMIT_def)


lemma run_between:
  assumes "merge_loop ev (output_path oo) fnames \<lparr>files = fs, first = None, output_c = None\<rparr> =
             (between (output_path oo) fo db fs', e)"
    and "fnames \<noteq> []"
  shows "fragdb_merge ev fs fnames oo =
     \<lparr>r_files = fs'(output_path oo \<mapsto> FragDB db),
      r_reports = notice ev oo @
        (case e of
           None \<Rightarrow> [merge_report (length fnames) (length (record_tbl db)) (length (error_record db))]
         | Some _ \<Rightarrow> []),
      r_error = e\<rparr>"
  using assms(2)
  by (simp add: fragdb_merge_def assms(1) final_counts_between split: option.split)

lemma run_accepted:
  assumes "output_path oo \<notin> set fnames" and "accepts ev fs fnames (output_path oo)"
  shows "fragdb_merge ev fs fnames oo =
     \<lparr>r_files = fs(output_path oo \<mapsto> FragDB (output_db fs fnames)),
      r_reports = notice ev oo @
        [merge_report (length fnames) (length (record_tbl (output_db fs fnames)))
           (length (error_record (output_db fs fnames)))],
      r_error = None\<rparr>"
proof -
  let ?out = "output_path oo"
  from assms(2) obtain f rest where fn: "fnames = f # rest" and isdb: "is_fragdb fs f"
    and ce: "connect_error ev ?out = None" and ae: "attach_error ev f = None"
    and acc: "accepted ev fs (f, db_options (fragdb_at fs f)) rest
            (fragdb_merge_sql (fragdb_at fs f) (empty_fragdb (db_options (fragdb_at fs f))))"
    by (auto simp: accepts_def split: list.splits)
  from isdb obtain old where old: "fs f = Some (FragDB old)"
    by (auto simp: is_fragdb_def split: option.splits disk_file.splits)
  then have idb: "fragdb_at fs f = old" by (simp add: fragdb_at_def)
  from assms(1) fn have ne: "f \<noteq> ?out" and rest: "?out \<notin> set rest" by auto
  have "merge_loop ev ?out fnames \<lparr>files = fs, first = None, output_c = None\<rparr> =
        (between ?out (f, db_options old) (output_db fs fnames) fs, None)"
    using later_rounds [OF rest, of ev fs "(f, db_options old)"
        "fragdb_merge_sql old (empty_fragdb (db_options old))"] acc ne
    by (simp add: fn and_then_def first_round old ce ae idb output_db_def)
  from run_between [OF this] show ?thesis by (simp add: fn)
qed

lemma run_rejected:
  assumes "output_path oo \<notin> set fnames" and "\<not> accepts ev fs fnames (output_path oo)"
  shows "r_error (fragdb_merge ev fs fnames oo) \<noteq> None"
proof (cases fnames)
  case Nil
  then show ?thesis by (simp add: fragdb_merge_def)
next
  case (Cons f rest)
  let ?out = "output_path oo"
  let ?st0 = "\<lparr>files = fs, first = None, output_c = None\<rparr>"
  from assms(1) Cons have ne: "f \<noteq> ?out" and rest: "?out \<notin> set rest" by auto
  show ?thesis
  proof (cases "is_fragdb fs f \<and> connect_error ev ?out = None \<and> attach_error ev f = None")
    case True
    then obtain old where old: "fs f = Some (FragDB old)"
      by (auto simp: is_fragdb_def split: option.splits disk_file.splits)
    then have idb: "fragdb_at fs f = old" by (simp add: fragdb_at_def)
    from assms(2) True have "\<not> accepted ev fs (f, db_options old) rest
            (fragdb_merge_sql old (empty_fragdb (db_options old)))"
      by (simp add: accepts_def Cons idb)
    with later_rounds [OF rest, of ev fs "(f, db_options old)"
        "fragdb_merge_sql old (empty_fragdb (db_options old))"]
    obtain db' e where "merge_loop ev ?out rest (between ?out (f, db_options old)
         (fragdb_merge_sql old (empty_fragdb (db_options old))) fs) =
         (between ?out (f, db_options old) db' fs, Some e)" by blast
    with True ne have "merge_loop ev ?out fnames ?st0 = (between ?out (f, db_options old) db' fs, Some e)"
      by (simp add: Cons and_then_def first_round old)
    from run_between [OF this] show ?thesis by (simp add: Cons)
  next
    case False
    then show ?thesis
      by (auto simp: fragdb_merge_def Cons and_then_def first_round is_fragdb_def
          final_counts_def execute_COMMIT_def init_fragdb_def
          split: option.splits disk_file.splits)
  qed
qed

lemma run_success_iff:
  assumes "output_path oo \<notin> set fnames"
  shows "(r_error (fragdb_merge ev fs fnames oo) = None) = accepts ev fs fnames (output_path oo)"
  using run_accepted [OF assms] run_rejected [OF assms] by (cases "accepts ev fs fnames (output_path oo)") auto


subsection \<open>The merged database\<close>



lemma merged_titles:
  "titles (merged fs fnames db) = titles db @ concat (map (\<lambda>f. titles (fragdb_at fs f)) fnames)"
  by (induction fnames arbitrary: db) (simp_all add: titles_merge)

lemma merged_options [simp]: "db_options (merged fs fnames db) = db_options db"
  by (induction fnames arbitrary: db) simp_all

lemma duplicate_titles_set:
  "set (duplicate_titles old db) = set (titles old) \<inter> set (titles db)"
  unfolding duplicate_titles_def titles_def by (auto split: if_splits) (metis imageI)

lemma duplicate_titles_Nil_iff:
  "(duplicate_titles old db = []) = (set (titles db) \<inter> set (titles old) = {})"
  using duplicate_titles_set [of old db] by (auto simp flip: set_empty)


lemma empty_simps [simp]:
  "titles (empty_fragdb opts) = []"
  "record_tbl (empty_fragdb opts) = []"
  "error_record (empty_fragdb opts) = []"
  "fragmentation (empty_fragdb opts) = []"
  "db_options (empty_fragdb opts) = opts"
  "fragmentations_of (empty_fragdb opts) t = []"
  by (simp_all add: empty_fragdb_def titles_def fragmentations_of_def)

lemma merged_valid:
  assumes "valid_fragdb db" "\<forall>f \<in> set fnames. valid_fragdb (fragdb_at fs f)"
    "accepted ev fs fo fnames db"
  shows "valid_fragdb (merged fs fnames db) \<and>
     (\<forall>t. fragmentations_of (merged fs fnames db) t =
          fragmentations_of db t @ concat (map (\<lambda>f. fragmentations_of (fragdb_at fs f) t) fnames))"
  using assms
proof (induction fnames arbitrary: db)
  case Nil
  then show ?case by simp
next
  case (Cons f rest)
  let ?old = "fragdb_at fs f"
  from Cons.prems have vold: "valid_fragdb ?old"
    and disj: "set (titles db) \<inter> set (titles ?old) = {}"
    and acc: "accepted ev fs fo rest (fragdb_merge_sql ?old db)"
    by (simp_all add: duplicate_titles_Nil_iff)
  from vold have told: "distinct (titles ?old)" by (simp add: valid_fragdb_def)
  have v: "valid_fragdb (fragdb_merge_sql ?old db)"
    using Cons.prems(1) disj told by (rule valid_fragdb_merge)
  from Cons.IH [OF v _ acc] Cons.prems(2)
  show ?case
    by (simp add: fragmentations_of_merge [OF Cons.prems(1) vold disj])
qed











subsection \<open>Further facts about the rounds and the merged database\<close>

lemma titles_first_merge [simp]:
  "titles (fragdb_merge_sql old (empty_fragdb opts)) = titles old"
  by (simp add: titles_merge)








lemma filter_unique:
  "distinct (map k xs) \<Longrightarrow> x \<in> set xs \<Longrightarrow> filter (\<lambda>y. k y = k x) xs = [x]"
proof (induction xs)
  case Nil
  then show ?case by simp
next
  case (Cons y ys)
  show ?case
  proof (cases "y = x")
    case True
    with Cons.prems have notin: "k x \<notin> k ` set ys" by auto
    have "k z \<noteq> k x" if "z \<in> set ys" for z
    proof
      assume "k z = k x"
      with that have "k x \<in> k ` set ys" by (rule rev_image_eqI [OF _ sym])
      with notin show False by simp
    qed
    then have "filter (\<lambda>y. k y = k x) ys = []" by (simp add: filter_empty_conv)
    with True show ?thesis by simp
  next
    case False
    with Cons.prems have "x \<in> set ys" "k y \<noteq> k x" by force+
    with Cons show ?thesis by simp
  qed
qed

lemma selected_origin:
  assumes "s \<in> set (selected_fragmentations old db)"
  shows "\<exists>n \<in> set (record_tbl db). \<exists>r0 \<in> set (record_tbl old). \<exists>f0 \<in> set (fragmentation old).
           rr_id n = fr_record_id s \<and> fr_record_id f0 = rr_id r0 \<and> rr_title r0 = rr_title n \<and>
           fragmentation_columns f0 = fragmentation_columns s"
  using assms unfolding selected_fragmentations_def
  by (fastforce simp: fragmentation_columns_def split: if_splits)

lemma merge_origin:
  assumes "f \<in> set (fragmentation (fragdb_merge_sql old db))"
  shows "(\<exists>f' \<in> set (fragmentation db). fr_record_id f' = fr_record_id f \<and>
            fragmentation_columns f' = fragmentation_columns f) \<or>
         (\<exists>n \<in> set (record_tbl (fragdb_merge_sql old db)). \<exists>r0 \<in> set (record_tbl old).
            \<exists>f0 \<in> set (fragmentation old).
              rr_id n = fr_record_id f \<and> fr_record_id f0 = rr_id r0 \<and>
              rr_title r0 = rr_title n \<and> fragmentation_columns f0 = fragmentation_columns f)"
proof -
  let ?m2 = "copy_records old (copy_error_records old db)"
  let ?k = "\<lambda>f. (fr_record_id f, fragmentation_columns f)"
  have rt: "record_tbl ?m2 = record_tbl (fragdb_merge_sql old db)"
    by (simp add: fragdb_merge_sql_def)
  have "map ?k (fragmentation (fragdb_merge_sql old db)) =
        map ?k (fragmentation db) @ map ?k (selected_fragmentations old ?m2)"
    by (simp add: fragdb_merge_sql_def copy_fragmentations_def insert_rows_map
        fragmentation_columns_def)
  then have "set (map ?k (fragmentation (fragdb_merge_sql old db))) =
        set (map ?k (fragmentation db)) \<union> set (map ?k (selected_fragmentations old ?m2))"
    by (metis set_append)
  then have seteq: "?k ` set (fragmentation (fragdb_merge_sql old db)) =
        ?k ` set (fragmentation db) \<union> ?k ` set (selected_fragmentations old ?m2)"
    by (simp only: set_map)
  from assms have "?k f \<in> ?k ` set (fragmentation (fragdb_merge_sql old db))"
    by (rule imageI)
  then have "?k f \<in> ?k ` set (fragmentation db) \<or>
      ?k f \<in> ?k ` set (selected_fragmentations old ?m2)"
    unfolding seteq by (rule UnE) (rule disjI1, assumption, rule disjI2, assumption)
  then show ?thesis
  proof
    assume "?k f \<in> ?k ` set (fragmentation db)"
    then show ?thesis by auto
  next
    assume "?k f \<in> ?k ` set (selected_fragmentations old ?m2)"
    then obtain s where s: "s \<in> set (selected_fragmentations old ?m2)"
      "fr_record_id s = fr_record_id f" "fragmentation_columns s = fragmentation_columns f"
      by auto
    from selected_origin [OF s(1)] show ?thesis unfolding rt s(2,3) by blast
  qed
qed

lemma resolves_merge:
  assumes "resolves fs inputs db"
  shows "resolves fs (insert fn inputs) (fragdb_merge_sql (fragdb_at fs fn) db)"
proof -
  let ?old = "fragdb_at fs fn"
  let ?m = "fragdb_merge_sql ?old db"
  from assms have ids: "distinct (map rr_id (record_tbl ?m))"
    by (simp add: resolves_def record_ids_merge)
  obtain new where new: "record_tbl ?m = record_tbl db @ new"
    using record_tbl_merge_append by blast
  have "\<exists>n \<in> set (record_tbl ?m). rr_id n = fr_record_id f \<and>
          (\<exists>fn' \<in> insert fn inputs. \<exists>r0 \<in> set (record_tbl (fragdb_at fs fn')).
             \<exists>f0 \<in> set (fragmentation (fragdb_at fs fn')).
               fr_record_id f0 = rr_id r0 \<and> rr_title r0 = rr_title n \<and>
               fragmentation_columns f0 = fragmentation_columns f)"
    if "f \<in> set (fragmentation ?m)" for f
    using merge_origin [OF that]
  proof
    assume "\<exists>f' \<in> set (fragmentation db). fr_record_id f' = fr_record_id f \<and>
            fragmentation_columns f' = fragmentation_columns f"
    then obtain f' where f': "f' \<in> set (fragmentation db)" "fr_record_id f' = fr_record_id f"
      "fragmentation_columns f' = fragmentation_columns f" by blast
    from assms f'(1) obtain n fn' r0 f0 where "n \<in> set (record_tbl db)"
      "rr_id n = fr_record_id f'" "fn' \<in> inputs" "r0 \<in> set (record_tbl (fragdb_at fs fn'))"
      "f0 \<in> set (fragmentation (fragdb_at fs fn'))" "fr_record_id f0 = rr_id r0"
      "rr_title r0 = rr_title n" "fragmentation_columns f0 = fragmentation_columns f'"
      unfolding resolves_def by blast
    then show ?thesis unfolding new f'(2,3) by auto
  next
    assume "\<exists>n \<in> set (record_tbl ?m). \<exists>r0 \<in> set (record_tbl ?old).
            \<exists>f0 \<in> set (fragmentation ?old).
              rr_id n = fr_record_id f \<and> fr_record_id f0 = rr_id r0 \<and>
              rr_title r0 = rr_title n \<and> fragmentation_columns f0 = fragmentation_columns f"
    then show ?thesis by blast
  qed
  with ids show ?thesis unfolding resolves_def by blast
qed

lemma resolves_merged:
  "resolves fs inputs db \<Longrightarrow> resolves fs (inputs \<union> set fnames) (merged fs fnames db)"
proof (induction fnames arbitrary: db inputs)
  case Nil
  then show ?case by simp
next
  case (Cons fn rest)
  from Cons.IH [OF resolves_merge [OF Cons.prems, of fn]] show ?case by simp
qed

lemma resolves_output: "resolves fs (set fnames) (output_db fs fnames)"
proof -
  have "resolves fs {} (empty_fragdb opts)" for opts
    by (simp add: resolves_def)
  from resolves_merged [OF this, of fnames] show ?thesis by (simp add: output_db_def)
qed



subsection \<open>The example inputs\<close>



lemma example_out:
  "output_path (Some ''out.fragdb'') = ''out.fragdb''"
  by (simp add: output_path_def)

section \<open>The claims\<close>



text \<open>
  C2. Referential integrity. After a successful merge of any number of inputs (the output
  path not among them), every fragmentation row of the output has a \<open>record_id\<close>
  that selects exactly one record row of the output, and that row carries the title of a
  record that owns, in one of the inputs, a fragmentation with the same columns.
\<close>

theorem referential_integrity:
  assumes "r_error (fragdb_merge ev fs fnames oo) = None"
    and "output_path oo \<notin> set fnames"
  shows "\<exists>db. r_files (fragdb_merge ev fs fnames oo) (output_path oo) = Some (FragDB db) \<and>
     (\<forall>f \<in> set (fragmentation db).
        \<exists>n. filter (\<lambda>r. rr_id r = fr_record_id f) (record_tbl db) = [n] \<and>
          (\<exists>fn \<in> set fnames. \<exists>r0 \<in> set (record_tbl (fragdb_at fs fn)).
             \<exists>f0 \<in> set (fragmentation (fragdb_at fs fn)).
               fr_record_id f0 = rr_id r0 \<and> rr_title r0 = rr_title n \<and>
               fragmentation_columns f0 = fragmentation_columns f))"
proof -
  let ?db = "output_db fs fnames"
  from assms have acc: "accepts ev fs fnames (output_path oo)"
    by (simp add: run_success_iff)
  note run = run_accepted [OF assms(2) acc]
  have res: "resolves fs (set fnames) ?db" by (rule resolves_output)
  then have ids: "distinct (map rr_id (record_tbl ?db))" by (simp add: resolves_def)
  have "\<exists>n. filter (\<lambda>r. rr_id r = fr_record_id f) (record_tbl ?db) = [n] \<and>
          (\<exists>fn \<in> set fnames. \<exists>r0 \<in> set (record_tbl (fragdb_at fs fn)).
             \<exists>f0 \<in> set (fragmentation (fragdb_at fs fn)).
               fr_record_id f0 = rr_id r0 \<and> rr_title r0 = rr_title n \<and>
               fragmentation_columns f0 = fragmentation_columns f)"
    if "f \<in> set (fragmentation ?db)" for f
  proof -
    from res that obtain n where n: "n \<in> set (record_tbl ?db)" "rr_id n = fr_record_id f"
      and orig: "\<exists>fn \<in> set fnames. \<exists>r0 \<in> set (record_tbl (fragdb_at fs fn)).
             \<exists>f0 \<in> set (fragmentation (fragdb_at fs fn)).
               fr_record_id f0 = rr_id r0 \<and> rr_title r0 = rr_title n \<and>
               fragmentation_columns f0 = fragmentation_columns f"
      unfolding resolves_def by blast
    from filter_unique [OF ids n(1)] have "filter (\<lambda>r. rr_id r = fr_record_id f) (record_tbl ?db) = [n]"
      by (simp add: n(2))
    with orig show ?thesis by blast
  qed
  then show ?thesis by (simp add: run)
qed

theorem referential_integrity_witness:
  "r_error (fragdb_merge example_env example_files [''a.fragdb'', ''b.fragdb'']
      (Some ''out.fragdb'')) = None \<and>
   (\<exists>db. r_files (fragdb_merge example_env example_files [''a.fragdb'', ''b.fragdb'']
            (Some ''out.fragdb'')) ''out.fragdb'' = Some (FragDB db) \<and>
     (\<forall>f \<in> set (fragmentation db).
        \<exists>n. filter (\<lambda>r. rr_id r = fr_record_id f) (record_tbl db) = [n] \<and>
          (\<exists>fn \<in> set [''a.fragdb'', ''b.fragdb''].
             \<exists>r0 \<in> set (record_tbl (fragdb_at example_files fn)).
             \<exists>f0 \<in> set (fragmentation (fragdb_at example_files fn)).
               fr_record_id f0 = rr_id r0 \<and> rr_title r0 = rr_title n \<and>
               fragmentation_columns f0 = fragmentation_columns f)))"
proof -
  have h1: "r_error (fragdb_merge example_env example_files [''a.fragdb'', ''b.fragdb'']
      (Some ''out.fragdb'')) = None" by code_simp
  have h2: "output_path (Some ''out.fragdb'') \<notin> set [''a.fragdb'', ''b.fragdb'']"
    by (simp add: example_out)
  from referential_integrity [OF h1 h2] h1 show ?thesis unfolding example_out by blast
qed












text \<open>
  C8. The output is created fresh. \<open>open_output_fragdb\<close> gives the same result
  whatever was stored at the output path; when the connection opens, the path holds a
  database without rows and the connection sees empty tables with the given options.
  \<open>unlink\<close> on a missing path raises, on an existing one it removes the file, and the
  result of \<open>open_output_fragdb\<close> is the same in both cases. A run that reaches the
  opening of the output (its first input is a fragment database) does not depend on a
  file found at the output path.
\<close>

theorem output_created_fresh:
  "open_output_fragdb ev (fs(filename := x)) filename opts = open_output_fragdb ev fs filename opts \<and>
   (connect_error ev filename = None \<longrightarrow>
      open_output_fragdb ev fs filename opts =
        (fs(filename \<mapsto> FragDB (empty_fragdb [])), Inr (init_fragdb filename opts)) \<and>
      c_main (init_fragdb filename opts) = empty_fragdb opts) \<and>
   (fs filename = None \<longrightarrow> unlink fs filename = Inl ()) \<and>
   (fs filename \<noteq> None \<longrightarrow> unlink fs filename = Inr (fs(filename := None))) \<and>
   (fnames \<noteq> [] \<and> is_fragdb fs (hd fnames) \<and> output_path oo \<notin> set fnames \<longrightarrow>
      fragdb_merge ev (fs(output_path oo := x)) fnames oo = fragdb_merge ev fs fnames oo)"
proof -
  have a: "open_output_fragdb ev (fs(filename := x)) filename opts =
           open_output_fragdb ev fs filename opts"
    by (simp add: open_output_fragdb_def unlink_def fun_upd_idem split: option.split)
  have b: "open_output_fragdb ev fs filename opts =
        (fs(filename \<mapsto> FragDB (empty_fragdb [])), Inr (init_fragdb filename opts))"
    if "connect_error ev filename = None"
    using that by (simp add: open_output_fragdb_def unlink_def split: option.split)
  have c: "c_main (init_fragdb filename opts) = empty_fragdb opts"
    by (simp add: init_fragdb_def)
  have d: "fs filename = None \<longrightarrow> unlink fs filename = Inl ()"
    by (simp add: unlink_def)
  have e: "fs filename \<noteq> None \<longrightarrow> unlink fs filename = Inr (fs(filename := None))"
    by (auto simp: unlink_def)
  have f: "fragdb_merge ev (fs(output_path oo := x)) fnames oo = fragdb_merge ev fs fnames oo"
    if "fnames \<noteq> []" "is_fragdb fs (hd fnames)" "output_path oo \<notin> set fnames"
  proof -
    from that(1) obtain g rest where fn: "fnames = g # rest" by (cases fnames) auto
    with that(3) have ne: "g \<noteq> output_path oo" by auto
    from that(2) fn obtain old where old: "fs g = Some (FragDB old)"
      by (auto simp: is_fragdb_def split: option.splits disk_file.splits)
    have "merge_one ev (output_path oo) g
            \<lparr>files = fs(output_path oo := x), first = None, output_c = None\<rparr> =
          merge_one ev (output_path oo) g \<lparr>files = fs, first = None, output_c = None\<rparr>"
      using ne old by (simp add: first_round between_def split: option.split)
    then show ?thesis
      by (simp add: fragdb_merge_def fn and_then_def)
  qed
  from a b c d e f show ?thesis by blast
qed

theorem output_created_fresh_witness:
  "open_output_fragdb example_env (example_files(''a.fragdb'' := None)) ''a.fragdb'' example_options =
     open_output_fragdb example_env example_files ''a.fragdb'' example_options \<and>
   connect_error example_env ''a.fragdb'' = None \<and>
   open_output_fragdb example_env example_files ''a.fragdb'' example_options =
     (example_files(''a.fragdb'' \<mapsto> FragDB (empty_fragdb [])),
      Inr (init_fragdb ''a.fragdb'' example_options)) \<and>
   example_files ''out.fragdb'' = None \<and> unlink example_files ''out.fragdb'' = Inl () \<and>
   example_files ''a.fragdb'' \<noteq> None \<and>
   unlink example_files ''a.fragdb'' = Inr (example_files(''a.fragdb'' := None)) \<and>
   is_fragdb example_files (hd [''a.fragdb'', ''b.fragdb'']) \<and>
   ''out.fragdb'' \<notin> set [''a.fragdb'', ''b.fragdb''] \<and>
   fragdb_merge example_env (example_files(''out.fragdb'' := Some NotFragDB))
       [''a.fragdb'', ''b.fragdb''] (Some ''out.fragdb'') =
     fragdb_merge example_env example_files [''a.fragdb'', ''b.fragdb''] (Some ''out.fragdb'')"
proof -
  have h1: "connect_error example_env ''a.fragdb'' = None" by (simp add: example_env_def)
  have h2: "example_files ''out.fragdb'' = None" by (simp add: example_files_def)
  have h3: "example_files ''a.fragdb'' \<noteq> None" by (simp add: example_files_def)
  have h4: "is_fragdb example_files (hd [''a.fragdb'', ''b.fragdb''])"
    by (simp add: is_fragdb_def example_files_def)
  have h5: "output_path (Some ''out.fragdb'') \<notin> set [''a.fragdb'', ''b.fragdb'']"
    by (simp add: output_path_def)
  have o: "output_path (Some ''out.fragdb'') = ''out.fragdb''" by (simp add: output_path_def)
  from output_created_fresh [of example_env example_files "''a.fragdb''" None example_options
      "[''a.fragdb'', ''b.fragdb'']" "Some ''out.fragdb''"]
    output_created_fresh [of example_env example_files "''out.fragdb''" "Some NotFragDB"
      example_options "[''a.fragdb'', ''b.fragdb'']" "Some ''out.fragdb''"]
    h1 h2 h3 h4 h5
  show ?thesis by (simp add: o)
qed






end
